theory Spec2Isabelle
  imports Complex_Main
begin

section \<open>Values of the training script\<close>

text \<open>
  The script \<^verbatim>\<open>egs/washington/steps/train_ctc.py\<close> compares Python floats, stores
  state dictionaries in checkpoint files and reads them back. A Python float is a
  number, one of the two infinities, or NaN; the comparison \<^verbatim>\<open><\<close> of two floats is
  exact, and is false whenever one side is NaN.
\<close>

datatype pyfloat = NegInf | Finite real | PosInf | NaN

fun float_lt :: "pyfloat \<Rightarrow> pyfloat \<Rightarrow> bool" where
  "float_lt NaN b = False"
| "float_lt a NaN = False"
| "float_lt PosInf b = False"
| "float_lt a NegInf = False"
| "float_lt NegInf b = True"
| "float_lt (Finite x) PosInf = True"
| "float_lt (Finite x) (Finite y) = (x < y)"

definition float_le :: "pyfloat \<Rightarrow> pyfloat \<Rightarrow> bool" where
  "float_le a b = (a \<noteq> NaN \<and> b \<noteq> NaN \<and> \<not> float_lt b a)"

text \<open>
  A state dictionary maps names to tensors or to further dictionaries; the tensors
  themselves are opaque (type \<open>'t\<close>).
\<close>

datatype 't obj = Tensor 't | Dict "string \<Rightarrow> 't obj option"

type_synonym 't pydict = "string \<Rightarrow> 't obj option"

datatype error = AssertionError | IOError | LoadStateDictError

text \<open>
  The effects of the script that the properties below speak about: the checkpoint
  files and the order of the writes and of the log lines. \<^verbatim>\<open>torch.save\<close> stores a
  dictionary under a path, and raises when the file cannot be written (the directory of
  the path is missing or cannot be written to); which paths can be written is a fact of
  the world. A save that raises leaves the files as they were. \<^verbatim>\<open>torch.load\<close> returns the
  dictionary stored under a path, and raises when there is no such file.
\<close>

datatype message = NewLowest pyfloat | LoadingFrom string

datatype 't event = Saved string "'t pydict" | Logged message

record 't world =
  files :: "string \<Rightarrow> 't pydict option"
  trace :: "'t event list"
  writable :: "string \<Rightarrow> bool"

definition torch_save :: "'t pydict \<Rightarrow> string \<Rightarrow> 't world \<Rightarrow> error + 't world" where
  "torch_save d path w =
     (if writable w path
      then Inr (w\<lparr>files := (files w)(path \<mapsto> d), trace := trace w @ [Saved path d]\<rparr>)
      else Inl IOError)"

definition torch_load :: "string \<Rightarrow> 't world \<Rightarrow> error + 't pydict" where
  "torch_load path w = (case files w path of None \<Rightarrow> Inl IOError | Some d \<Rightarrow> Inr d)"

definition logger_info :: "message \<Rightarrow> 't world \<Rightarrow> 't world" where
  "logger_info msg w = w\<lparr>trace := trace w @ [Logged msg]\<rparr>"

text \<open>
  The model and the optimizer are objects of \<^verbatim>\<open>torch\<close> with a state dictionary.
  \<^verbatim>\<open>state_dict()\<close> returns it. \<^verbatim>\<open>load_state_dict\<close> is strict: it raises unless the
  dictionary given fits the object (for a model the names and shapes of its parameters,
  for an optimizer its parameter groups), and otherwise makes it the state of the
  object. Which dictionaries fit is a property of the object (field \<open>accepts\<close>).
\<close>

record 't stateful =
  state_dict :: "'t obj"
  accepts :: "'t obj \<Rightarrow> bool"

definition load_state_dict :: "'t stateful \<Rightarrow> 't obj \<Rightarrow> error + 't stateful" where
  "load_state_dict x sd = (if accepts x sd then Inr (x\<lparr>state_dict := sd\<rparr>) else Inl LoadStateDictError)"

section \<open>SaveModelCheckpointHook\<close>

text \<open>
  The hook keeps the lowest value seen and the normalised file name. Its meter is a
  shared object whose current value is read at each call: a call of the model takes
  that value as an argument. The caller is a \<^verbatim>\<open>laia.engine.Trainer\<close>, with its model
  and its optimizer, or some other object.
\<close>

record hook =
  lowest :: pyfloat
  filename :: string

record 't trainer =
  model :: "'t stateful"
  optimizer :: "'t stateful"

datatype 't caller = Trainer "'t trainer" | NotTrainer

text \<open>
  \<^verbatim>\<open>__init__\<close>: \<^verbatim>\<open>os.path.normpath\<close> is a parameter; the directory that
  \<^verbatim>\<open>__init__\<close> creates is not part of the state modelled here.
\<close>

definition SaveModelCheckpointHook_init :: "(string \<Rightarrow> string) \<Rightarrow> string \<Rightarrow> hook" where
  "SaveModelCheckpointHook_init normpath fname = \<lparr>lowest = PosInf, filename = normpath fname\<rparr>"

definition checkpoint_record :: "'t obj \<Rightarrow> 't obj \<Rightarrow> 't pydict" where
  "checkpoint_record model_state_dict optimizer_state_dict =
     [''model'' \<mapsto> model_state_dict, ''optimizer'' \<mapsto> optimizer_state_dict]"

definition SaveModelCheckpointHook_save ::
  "hook \<Rightarrow> 't obj \<Rightarrow> 't obj \<Rightarrow> 't world \<Rightarrow> error + 't world" where
  "SaveModelCheckpointHook_save h model_state_dict optimizer_state_dict w =
     torch_save (checkpoint_record model_state_dict optimizer_state_dict) (filename h) w"

text \<open>
  \<^verbatim>\<open>__call__\<close> returns the outcome (an exception or nothing) together with the hook
  and the world as the call leaves them. When the save raises, the lowest value has
  already been set and logged.
\<close>

definition SaveModelCheckpointHook_call ::
  "hook \<Rightarrow> 't caller \<Rightarrow> pyfloat \<Rightarrow> 't world \<Rightarrow> (error + unit) \<times> hook \<times> 't world" where
  "SaveModelCheckpointHook_call h c meter_value w =
     (case c of
        NotTrainer \<Rightarrow> (Inl AssertionError, h, w)
      | Trainer t \<Rightarrow>
          if float_lt meter_value (lowest h) then
            let h' = h\<lparr>lowest := meter_value\<rparr>;
                w' = logger_info (NewLowest (lowest h')) w
            in (case SaveModelCheckpointHook_save h'
                       (state_dict (model t)) (state_dict (optimizer t)) w' of
                  Inl e \<Rightarrow> (Inl e, h', w')
                | Inr w'' \<Rightarrow> (Inr (), h', w''))
          else (Inr (), h, w))"

text \<open>
  The invocations of one hook instance over a run, in order, each with its caller and
  the meter's value at that moment. An exception ends the run.
\<close>

fun hook_run ::
  "hook \<Rightarrow> 't world \<Rightarrow> ('t caller \<times> pyfloat) list \<Rightarrow> (error + unit) \<times> hook \<times> 't world" where
  "hook_run h w [] = (Inr (), h, w)"
| "hook_run h w ((c, v) # cs) =
     (case SaveModelCheckpointHook_call h c v w of
        (Inl e, h', w') \<Rightarrow> (Inl e, h', w')
      | (Inr u, h', w') \<Rightarrow> hook_run h' w' cs)"

text \<open>
  The running minimum of the values observed, as the specification words it: the
  record is a number, it is \<open>+\<infinity>\<close> or one of the values observed, and no value observed
  lies strictly below it.
\<close>

definition is_running_min :: "pyfloat \<Rightarrow> pyfloat list \<Rightarrow> bool" where
  "is_running_min m vs =
     (m \<noteq> NaN \<and> (m = PosInf \<or> m \<in> set vs) \<and> (\<forall>v \<in> set vs. \<not> float_lt v m))"

definition lowest_after :: "hook \<Rightarrow> 't world \<Rightarrow> ('t caller \<times> pyfloat) list \<Rightarrow> pyfloat" where
  "lowest_after h w cs = lowest (fst (snd (hook_run h w cs)))"


definition world_after :: "hook \<Rightarrow> 't world \<Rightarrow> ('t caller \<times> pyfloat) list \<Rightarrow> 't world" where
  "world_after h w cs = snd (snd (hook_run h w cs))"

section \<open>The script's own steps\<close>

text \<open>
  The arguments of the script that decide the steps modelled here.
  \<^verbatim>\<open>--save_checkpoint\<close> is a string (default \<^verbatim>\<open>model.ckpt\<close>), \<^verbatim>\<open>--load_checkpoint\<close> a
  string or \<^verbatim>\<open>None\<close>; the three early-stop arguments are numbers or \<^verbatim>\<open>None\<close>.
\<close>

record args =
  save_checkpoint :: string
  load_checkpoint :: "string option"
  max_epochs :: "int option"
  valid_cer_std_window_size :: "int option"
  valid_cer_std_threshold :: "real option"

text \<open>
  Lines 141 to 148: the checkpoint named by \<^verbatim>\<open>--load_checkpoint\<close> is read when the
  argument is a non-empty string, into the model and the optimizer built at lines 130
  to 139. The result is the model and the optimizer after the step, or the exception of
  \<^verbatim>\<open>torch.load\<close> or of a \<^verbatim>\<open>load_state_dict\<close>, which ends the script; and the world.
\<close>

definition load_checkpoint_step ::
  "args \<Rightarrow> 't stateful \<Rightarrow> 't stateful \<Rightarrow> 't world \<Rightarrow>
     (error + 't stateful \<times> 't stateful) \<times> 't world" where
  "load_checkpoint_step a mdl optim w =
     (case load_checkpoint a of
        None \<Rightarrow> (Inr (mdl, optim), w)
      | Some path \<Rightarrow>
          if path = [] then (Inr (mdl, optim), w)
          else
            let w' = logger_info (LoadingFrom path) w in
            (case torch_load path w' of
               Inl e \<Rightarrow> (Inl e, w')
             | Inr saved_dict \<Rightarrow>
                 (case (saved_dict ''model'', saved_dict ''optimizer'') of
                    (Some m, Some opt) \<Rightarrow>
                      (case load_state_dict mdl m of
                         Inl e \<Rightarrow> (Inl e, w')
                       | Inr mdl' \<Rightarrow>
                           (case load_state_dict optim opt of
                              Inl e \<Rightarrow> (Inl e, w')
                            | Inr optim' \<Rightarrow> (Inr (mdl', optim'), w')))
                  | _ \<Rightarrow>
                      (case load_state_dict mdl (Dict saved_dict) of
                         Inl e \<Rightarrow> (Inl e, w')
                       | Inr mdl' \<Rightarrow> (Inr (mdl', optim), w')))))"

text \<open>
  Lines 223 to 227: the hook is registered when \<^verbatim>\<open>--save_checkpoint\<close> is a non-empty
  string, on the file name with the suffix \<^verbatim>\<open>-valid-lowest-cer\<close>.
\<close>

definition checkpoint_hook :: "(string \<Rightarrow> string) \<Rightarrow> args \<Rightarrow> hook option" where
  "checkpoint_hook normpath a =
     (if save_checkpoint a \<noteq> []
      then Some (SaveModelCheckpointHook_init normpath (save_checkpoint a @ ''-valid-lowest-cer''))
      else None)"

text \<open>
  Lines 233 to 238, after the training run has returned: the model's and the
  optimizer's state are saved under \<^verbatim>\<open>--save_checkpoint\<close>, the path as it was given,
  when it is a non-empty string.
\<close>

definition final_save :: "args \<Rightarrow> 't stateful \<Rightarrow> 't stateful \<Rightarrow> 't world \<Rightarrow> error + 't world" where
  "final_save a mdl optim w =
     (if save_checkpoint a \<noteq> []
      then torch_save (checkpoint_record (state_dict mdl) (state_dict optim)) (save_checkpoint a) w
      else Inr w)"

section \<open>Early-stop triggers\<close>

text \<open>
  Modelled from the spec: the classes \<^verbatim>\<open>NumEpochs\<close>, \<^verbatim>\<open>MeterStandardDeviation\<close> and
  \<^verbatim>\<open>Any\<close> of \<^verbatim>\<open>laia.engine.triggers\<close>, which the script imports and whose code is not
  among the sources. Section 4.2 of the specification describes them: the epoch-count
  trigger fires once the trainer's completed-epoch counter reaches its maximum; the
  metric-stability trigger keeps a first-in first-out window of at most \<open>W\<close> most
  recent values of its meter and fires when the window is full and the sample standard
  deviation of its values is at or below the threshold; the composite fires iff at
  least one member fires when evaluated. The values of the monitored metric and the
  threshold are real numbers here.
\<close>

datatype trigger =
    NumEpochs int
  | MeterStandardDeviation real int "real list"
  | Any "trigger list"

definition mean :: "real list \<Rightarrow> real" where
  "mean xs = sum_list xs / real (length xs)"

text \<open>
  Modelled from the spec: the statistic of the metric-stability trigger, the sample
  standard deviation, which is undefined for fewer than two values.
\<close>

definition sample_std :: "real list \<Rightarrow> real option" where
  "sample_std xs =
     (if length xs < 2 then None
      else Some (sqrt (sum_list (map (\<lambda>x. (x - mean xs)\<^sup>2) xs) / real (length xs - 1))))"

definition most_recent :: "nat \<Rightarrow> 'a list \<Rightarrow> 'a list" where
  "most_recent n xs = drop (length xs - n) xs"

definition std_at_most :: "real list \<Rightarrow> real \<Rightarrow> bool" where
  "std_at_most xs T = (case sample_std xs of None \<Rightarrow> False | Some s \<Rightarrow> s \<le> T)"

text \<open>
  Modelled from the spec: the call of a trigger, which is not among the sources. One
  evaluation takes the trainer's completed-epoch counter and the current value of the
  monitored meter, and gives whether the trigger fires and the trigger with its window
  updated. Every member of a composite is evaluated.
\<close>

fun evaluate :: "int \<Rightarrow> real \<Rightarrow> trigger \<Rightarrow> bool \<times> trigger" where
  "evaluate e v (NumEpochs n) = (n \<le> e, NumEpochs n)"
| "evaluate e v (MeterStandardDeviation T W window) =
     (let window' = most_recent (nat W) (window @ [v])
      in (int (length window') = W \<and> std_at_most window' T,
          MeterStandardDeviation T W window'))"
| "evaluate e v (Any ts) =
     (let rs = map (evaluate e v) ts in (list_ex fst rs, Any (map snd rs)))"

definition fires :: "int \<Rightarrow> real \<Rightarrow> trigger \<Rightarrow> bool" where
  "fires e v t = fst (evaluate e v t)"

text \<open>
  A trigger after it has been evaluated once for each value of a sequence, in order,
  with the epoch counter growing by one from one evaluation to the next.
\<close>

fun feed :: "int \<Rightarrow> trigger \<Rightarrow> real list \<Rightarrow> trigger" where
  "feed e t [] = t"
| "feed e t (v # vs) = feed (e + 1) (snd (evaluate e v t)) vs"

text \<open>
  Lines 203 to 220 of the script: the list of early-stop triggers. A Python number is
  true when it is not zero, and \<^verbatim>\<open>None\<close> is false.
\<close>

definition truthy_int :: "int option \<Rightarrow> bool" where
  "truthy_int x = (case x of None \<Rightarrow> False | Some n \<Rightarrow> n \<noteq> 0)"

definition truthy_float :: "real option \<Rightarrow> bool" where
  "truthy_float x = (case x of None \<Rightarrow> False | Some r \<Rightarrow> r \<noteq> 0)"

definition early_stop_triggers :: "args \<Rightarrow> trigger list" where
  "early_stop_triggers a =
     (case max_epochs a of
        Some n \<Rightarrow> if truthy_int (max_epochs a) \<and> n > 0 then [NumEpochs n] else []
      | None \<Rightarrow> []) @
     (case (valid_cer_std_window_size a, valid_cer_std_threshold a) of
        (Some W, Some T) \<Rightarrow>
          if truthy_int (valid_cer_std_window_size a) \<and> truthy_float (valid_cer_std_threshold a)
          then [MeterStandardDeviation T W []] else []
      | _ \<Rightarrow> [])"

definition early_stop_trigger :: "args \<Rightarrow> trigger" where
  "early_stop_trigger a = Any (early_stop_triggers a)"

section \<open>Example inputs\<close>

text \<open>
  A model with one parameter \<open>w\<close> and an optimizer with one entry \<open>lr\<close>, each fitting
  exactly the dictionaries with its own key; a trainer holding them; a world with no
  file where every path can be written; and three invocations of the hook with the
  validation error rates 0.5, 0.2 and 0.3.
\<close>

definition example_model :: "nat stateful" where
  "example_model =
     \<lparr>state_dict = Dict [''w'' \<mapsto> Tensor 1],
      accepts = (\<lambda>sd. case sd of Dict d \<Rightarrow> dom d = {''w''} | Tensor x \<Rightarrow> False)\<rparr>"

definition example_optimizer :: "nat stateful" where
  "example_optimizer =
     \<lparr>state_dict = Dict [''lr'' \<mapsto> Tensor 2],
      accepts = (\<lambda>sd. case sd of Dict d \<Rightarrow> dom d = {''lr''} | Tensor x \<Rightarrow> False)\<rparr>"

definition example_trainer :: "nat trainer" where
  "example_trainer = \<lparr>model = example_model, optimizer = example_optimizer\<rparr>"

definition empty_world :: "nat world" where
  "empty_world = \<lparr>files = Map.empty, trace = [], writable = (\<lambda>path. True)\<rparr>"

definition example_calls :: "(nat caller \<times> pyfloat) list" where
  "example_calls =
     [(Trainer example_trainer, Finite (1/2)), (Trainer example_trainer, Finite (1/5)),
      (Trainer example_trainer, Finite (3/10))]"

definition example_hook :: hook where
  "example_hook = SaveModelCheckpointHook_init id ''m.ckpt''"

text \<open>
  A freshly built model and optimizer of the same kind, with other values; a world
  where the directory \<open>a\<close> is missing, so that \<^verbatim>\<open>a/../b/model.ckpt\<close> cannot be written;
  arguments with an empty \<^verbatim>\<open>--save_checkpoint\<close>; arguments that save to and load from
  \<^verbatim>\<open>model.ckpt\<close> and set the three early-stop arguments; arguments that save to the
  path that cannot be written; arguments that load a file holding a bare model state,
  a file holding an empty dictionary, and a file holding a dictionary with the key
  \<^verbatim>\<open>model\<close> only; a world where no path can be written; a model without parameters;
  and the trigger of the specification's scenario (window 3, threshold 0.01).
\<close>

definition fresh_model :: "nat stateful" where
  "fresh_model = example_model\<lparr>state_dict := Dict [''w'' \<mapsto> Tensor 0]\<rparr>"

definition fresh_optimizer :: "nat stateful" where
  "fresh_optimizer = example_optimizer\<lparr>state_dict := Dict [''lr'' \<mapsto> Tensor 0]\<rparr>"

definition missing_dir_world :: "nat world" where
  "missing_dir_world = empty_world\<lparr>writable := (\<lambda>path. path \<noteq> ''a/../b/model.ckpt'')\<rparr>"

definition no_checkpoint_args :: args where
  "no_checkpoint_args =
     \<lparr>save_checkpoint = [], load_checkpoint = None, max_epochs = None,
      valid_cer_std_window_size = None, valid_cer_std_threshold = None\<rparr>"

definition example_args :: args where
  "example_args =
     \<lparr>save_checkpoint = ''model.ckpt'', load_checkpoint = Some ''model.ckpt'', max_epochs = Some 20,
      valid_cer_std_window_size = Some 3, valid_cer_std_threshold = Some (1/100)\<rparr>"

definition missing_dir_args :: args where
  "missing_dir_args = example_args\<lparr>save_checkpoint := ''a/../b/model.ckpt''\<rparr>"

definition bare_args :: args where
  "bare_args = example_args\<lparr>load_checkpoint := Some ''bare.ckpt''\<rparr>"

definition bare_world :: "nat world" where
  "bare_world = empty_world\<lparr>files := [''bare.ckpt'' \<mapsto> [''w'' \<mapsto> Tensor 1]]\<rparr>"

definition empty_record_args :: args where
  "empty_record_args = example_args\<lparr>load_checkpoint := Some ''empty.ckpt''\<rparr>"

definition parameterless :: "nat stateful" where
  "parameterless =
     \<lparr>state_dict = Dict Map.empty,
      accepts = (\<lambda>sd. case sd of Dict d \<Rightarrow> dom d = {} | Tensor x \<Rightarrow> False)\<rparr>"

definition model_only_args :: args where
  "model_only_args = example_args\<lparr>load_checkpoint := Some ''model_only.ckpt''\<rparr>"

definition partial_record_world :: "nat world" where
  "partial_record_world =
     empty_world\<lparr>files := [''empty.ckpt'' \<mapsto> Map.empty,
                          ''model_only.ckpt'' \<mapsto> [''model'' \<mapsto> Dict [''w'' \<mapsto> Tensor 1]]]\<rparr>"

definition readonly_world :: "nat world" where
  "readonly_world = empty_world\<lparr>writable := (\<lambda>path. False)\<rparr>"

definition plateau_trigger :: trigger where
  "plateau_trigger = MeterStandardDeviation (1/100) 3 []"

section \<open>Properties of the checkpoint hook\<close>

lemma float_lt_irrefl: "\<not> float_lt a a"
  by (cases a) simp_all

lemma float_lt_trans: "float_lt a b \<Longrightarrow> float_lt b c \<Longrightarrow> float_lt a c"
  by (cases a; cases b; cases c) simp_all

lemma float_lt_not_NaN: "float_lt a b \<Longrightarrow> a \<noteq> NaN \<and> b \<noteq> NaN"
  by (cases a; cases b) simp_all

lemma float_lt_linear: "a \<noteq> NaN \<Longrightarrow> b \<noteq> NaN \<Longrightarrow> float_lt a b \<or> a = b \<or> float_lt b a"
  by (cases a; cases b) auto

lemma not_lt_trans:
  "\<not> float_lt a b \<Longrightarrow> \<not> float_lt b c \<Longrightarrow> b \<noteq> NaN \<Longrightarrow> c \<noteq> NaN \<Longrightarrow> \<not> float_lt a c"
  by (cases a; cases b; cases c) simp_all


text \<open>The running minimum is unique: "the" minimum of the values observed.\<close>

lemma is_running_min_unique:
  assumes "is_running_min a vs" "is_running_min b vs"
  shows "a = b"
proof -
  from assms have n: "a \<noteq> NaN" "b \<noteq> NaN" by (simp_all add: is_running_min_def)
  have ab: "\<not> float_lt a b"
  proof
    assume l: "float_lt a b"
    then have "a \<noteq> PosInf" by (cases a; cases b) simp_all
    with assms(1) have "a \<in> set vs" by (simp add: is_running_min_def)
    with assms(2) l show False by (simp add: is_running_min_def)
  qed
  have ba: "\<not> float_lt b a"
  proof
    assume l: "float_lt b a"
    then have "b \<noteq> PosInf" by (cases b; cases a) simp_all
    with assms(2) have "b \<in> set vs" by (simp add: is_running_min_def)
    with assms(1) l show False by (simp add: is_running_min_def)
  qed
  from float_lt_linear[OF n] ab ba show ?thesis by blast
qed

text \<open>
  What one call does, case by case. With a trainer as the caller the outcome is decided
  by the comparison and by whether the file can be written.
\<close>

lemma call_Trainer:
  "SaveModelCheckpointHook_call h (Trainer t) v w =
     (if float_lt v (lowest h) then
        if writable w (filename h) then
          (Inr (), h\<lparr>lowest := v\<rparr>,
           w\<lparr>files := (files w)(filename h \<mapsto>
                [''model'' \<mapsto> state_dict (model t), ''optimizer'' \<mapsto> state_dict (optimizer t)]),
             trace := trace w @ [Logged (NewLowest v),
                Saved (filename h)
                  [''model'' \<mapsto> state_dict (model t), ''optimizer'' \<mapsto> state_dict (optimizer t)]]\<rparr>)
        else (Inl IOError, h\<lparr>lowest := v\<rparr>, w\<lparr>trace := trace w @ [Logged (NewLowest v)]\<rparr>)
      else (Inr (), h, w))"
  by (simp add: SaveModelCheckpointHook_call_def SaveModelCheckpointHook_save_def torch_save_def
      logger_info_def checkpoint_record_def Let_def)

lemma call_Trainer_lowest:
  "SaveModelCheckpointHook_call h (Trainer t) v w = (r, h1, w1) \<Longrightarrow>
     lowest h1 = (if float_lt v (lowest h) then v else lowest h)"
  by (auto simp: call_Trainer split: if_splits)

lemma call_lowest:
  "SaveModelCheckpointHook_call h c v w = (Inr u, h1, w1) \<Longrightarrow>
     lowest h1 = (if float_lt v (lowest h) then v else lowest h)"
proof (cases c)
  case (Trainer t)
  assume "SaveModelCheckpointHook_call h c v w = (Inr u, h1, w1)"
  with Trainer show ?thesis by (simp add: call_Trainer_lowest)
next
  case NotTrainer
  assume "SaveModelCheckpointHook_call h c v w = (Inr u, h1, w1)"
  with NotTrainer show ?thesis by (simp add: SaveModelCheckpointHook_call_def)
qed

lemma step_min:
  assumes "m1 = (if float_lt v m then v else m)" "m \<noteq> NaN"
  shows "m1 \<noteq> NaN \<and> (m1 = m \<or> m1 = v) \<and> \<not> float_lt m m1 \<and> \<not> float_lt v m1"
  using assms float_lt_not_NaN[of v m] float_lt_irrefl[of v] float_lt_irrefl[of m] float_lt_trans[of v m v]
  by (cases "float_lt v m") auto

lemma hook_run_Cons_Inr:
  assumes "hook_run h w ((c, v) # cs) = (Inr (), h', w')"
  obtains h1 w1 where "SaveModelCheckpointHook_call h c v w = (Inr (), h1, w1)"
    and "hook_run h1 w1 cs = (Inr (), h', w')"
  using assms by (auto split: prod.splits sum.splits)

lemma hook_run_lowest:
  "hook_run h w cs = (Inr (), h', w') \<Longrightarrow> lowest h \<noteq> NaN \<Longrightarrow>
     lowest h' \<noteq> NaN \<and> (lowest h' = lowest h \<or> lowest h' \<in> set (map snd cs)) \<and>
     \<not> float_lt (lowest h) (lowest h') \<and> (\<forall>v \<in> set (map snd cs). \<not> float_lt v (lowest h'))"
proof (induction cs arbitrary: h w)
  case Nil
  then show ?case by (simp add: float_lt_irrefl)
next
  case (Cons a cs)
  obtain c v where a: "a = (c, v)" by (cases a)
  from Cons.prems(1) obtain h1 w1 where
    call: "SaveModelCheckpointHook_call h c v w = (Inr (), h1, w1)" and
    run: "hook_run h1 w1 cs = (Inr (), h', w')"
    unfolding a by (rule hook_run_Cons_Inr)
  from step_min[OF call_lowest[OF call] Cons.prems(2)] have
    s: "lowest h1 \<noteq> NaN" "lowest h1 = lowest h \<or> lowest h1 = v"
       "\<not> float_lt (lowest h) (lowest h1)" "\<not> float_lt v (lowest h1)"
    by blast+
  from Cons.IH[OF run s(1)] have
    ih: "lowest h' \<noteq> NaN" "lowest h' = lowest h1 \<or> lowest h' \<in> set (map snd cs)"
        "\<not> float_lt (lowest h1) (lowest h')" "\<forall>u \<in> set (map snd cs). \<not> float_lt u (lowest h')"
    by blast+
  have 1: "\<not> float_lt (lowest h) (lowest h')"
    by (rule not_lt_trans[OF s(3) ih(3) s(1) ih(1)])
  have 2: "\<not> float_lt v (lowest h')"
    by (rule not_lt_trans[OF s(4) ih(3) s(1) ih(1)])
  have st: "set (map snd (a # cs)) = insert v (set (map snd cs))" using a by simp
  show ?case unfolding st using ih(1,2,4) s(2) 1 2 by auto
qed

lemma hook_run_append:
  "hook_run h w (xs @ ys) =
     (case hook_run h w xs of
        (Inl e, h1, w1) \<Rightarrow> (Inl e, h1, w1)
      | (Inr u, h1, w1) \<Rightarrow> hook_run h1 w1 ys)"
proof (induction xs arbitrary: h w)
  case Nil
  show ?case by simp
next
  case (Cons a xs)
  obtain c v where a: "a = (c, v)" by (cases a)
  obtain r h1 w1 where call: "SaveModelCheckpointHook_call h c v w = (r, h1, w1)"
    by (cases "SaveModelCheckpointHook_call h c v w") 
  show ?case
  proof (cases r)
    case (Inl e)
    with call a show ?thesis by simp
  next
    case (Inr u)
    with call a Cons.IH[of h1 w1] show ?thesis by simp
  qed
qed

lemma hook_run_split:
  assumes "hook_run h w (xs @ ys) = (Inr (), h', w')"
  obtains h1 w1 where "hook_run h w xs = (Inr (), h1, w1)" and "hook_run h1 w1 ys = (Inr (), h', w')"
proof -
  obtain r h1 w1 where r: "hook_run h w xs = (r, h1, w1)" by (cases "hook_run h w xs")
  show thesis
  proof (cases r)
    case (Inl e)
    with assms r show ?thesis by (simp add: hook_run_append)
  next
    case (Inr u)
    with assms r that[of h1 w1] show ?thesis by (simp add: hook_run_append)
  qed
qed

lemma init_lowest: "lowest (SaveModelCheckpointHook_init normpath fname) = PosInf"
  by (simp add: SaveModelCheckpointHook_init_def)


text \<open>
  Claim C1. Over any sequence of successful invocations of one hook, starting from its
  construction (lowest value \<open>+\<infinity>\<close>): after each invocation \<open>j\<close> the recorded lowest
  value is the running minimum of the values observed in the first \<open>j\<close> invocations,
  and it is at or below the record after any earlier invocation \<open>i\<close>: the record never
  increases. The same holds after one more invocation by a trainer whatever its
  outcome, so also when its save raises.
\<close>

theorem hook_lowest_is_running_min:
  assumes run: "hook_run (SaveModelCheckpointHook_init normpath fname) w cs = (Inr (), h', w')"
    and ij: "i \<le> j" "j \<le> length cs"
  shows "is_running_min (lowest_after (SaveModelCheckpointHook_init normpath fname) w (take j cs))
           (map snd (take j cs)) \<and>
         float_le (lowest_after (SaveModelCheckpointHook_init normpath fname) w (take j cs))
           (lowest_after (SaveModelCheckpointHook_init normpath fname) w (take i cs)) \<and>
         (\<forall>t v r h'' w''.
            SaveModelCheckpointHook_call h' (Trainer t) v w' = (r, h'', w'') \<longrightarrow>
              is_running_min (lowest h'') (map snd cs @ [v]) \<and> float_le (lowest h'') (lowest h'))"
proof -
  let ?h0 = "SaveModelCheckpointHook_init normpath fname"
  have "cs = take j cs @ drop j cs" by simp
  with run have "hook_run ?h0 w (take j cs @ drop j cs) = (Inr (), h', w')" by simp
  then obtain hj wj where rj: "hook_run ?h0 w (take j cs) = (Inr (), hj, wj)"
    by (rule hook_run_split)
  have tj: "take j cs = take i cs @ drop i (take j cs)"
  proof -
    have "take i (take j cs) = take i cs" using ij(1) by (simp add: min_def)
    then show ?thesis using append_take_drop_id[of i "take j cs"] by simp
  qed
  from rj have "hook_run ?h0 w (take i cs @ drop i (take j cs)) = (Inr (), hj, wj)"
    using tj by simp
  then obtain hi wi where ri: "hook_run ?h0 w (take i cs) = (Inr (), hi, wi)"
    and rij: "hook_run hi wi (drop i (take j cs)) = (Inr (), hj, wj)"
    by (rule hook_run_split)
  have n0: "lowest ?h0 \<noteq> NaN" by (simp add: init_lowest)
  from hook_run_lowest[OF rj n0] have mj: "is_running_min (lowest hj) (map snd (take j cs))"
    unfolding is_running_min_def init_lowest by blast
  from hook_run_lowest[OF ri n0] have ni: "lowest hi \<noteq> NaN" by blast
  from hook_run_lowest[OF rij ni] have "lowest hj \<noteq> NaN" "\<not> float_lt (lowest hi) (lowest hj)"
    by blast+
  with ni have le: "float_le (lowest hj) (lowest hi)" by (simp add: float_le_def)
  have next_call: "is_running_min (lowest h'') (map snd cs @ [v]) \<and> float_le (lowest h'') (lowest h')"
    if call: "SaveModelCheckpointHook_call h' (Trainer t) v w' = (r, h'', w'')" for t v r h'' w''
  proof -
    from hook_run_lowest[OF run n0] have
      m: "lowest h' \<noteq> NaN" "lowest h' = PosInf \<or> lowest h' \<in> set (map snd cs)"
         "\<forall>u \<in> set (map snd cs). \<not> float_lt u (lowest h')"
      unfolding init_lowest by blast+
    from step_min[OF call_Trainer_lowest[OF call] m(1)] have
      s: "lowest h'' \<noteq> NaN" "lowest h'' = lowest h' \<or> lowest h'' = v"
         "\<not> float_lt (lowest h') (lowest h'')" "\<not> float_lt v (lowest h'')"
      by blast+
    define S where "S = set (map snd cs)"
    have st: "set (map snd cs @ [v]) = insert v S" by (simp add: S_def)
    have "\<not> float_lt u (lowest h'')" if "u \<in> S" for u
      using not_lt_trans[OF _ s(3) m(1) s(1), of u] m(3) that unfolding S_def by blast
    then have lb: "\<forall>u \<in> insert v S. \<not> float_lt u (lowest h'')" using s(4) by blast
    have m2: "lowest h' = PosInf \<or> lowest h' \<in> S" using m(2) by (simp only: S_def)
    have mem: "lowest h'' = PosInf \<or> lowest h'' \<in> insert v S"
      using s(2) m2 by auto
    have "is_running_min (lowest h'') (map snd cs @ [v])"
      unfolding is_running_min_def st using s(1) mem lb by blast
    moreover have "float_le (lowest h'') (lowest h')"
      using s(1,3) m(1) by (simp add: float_le_def)
    ultimately show ?thesis by blast
  qed
  from mj le next_call show ?thesis by (simp add: lowest_after_def rj ri)
qed

lemmas example_defs =
  example_calls_def example_hook_def example_trainer_def example_model_def example_optimizer_def
  empty_world_def

theorem hook_lowest_is_running_min_witness:
  "fst (hook_run (SaveModelCheckpointHook_init id ''m.ckpt'') empty_world example_calls) = Inr () \<and>
   (1::nat) \<le> 3 \<and> 3 \<le> length example_calls \<and>
   is_running_min
     (lowest_after (SaveModelCheckpointHook_init id ''m.ckpt'') empty_world (take 3 example_calls))
     (map snd (take 3 example_calls)) \<and>
   float_le
     (lowest_after (SaveModelCheckpointHook_init id ''m.ckpt'') empty_world (take 3 example_calls))
     (lowest_after (SaveModelCheckpointHook_init id ''m.ckpt'') empty_world (take 1 example_calls)) \<and>
   lowest_after (SaveModelCheckpointHook_init id ''m.ckpt'') empty_world (take 3 example_calls) = Finite (1/5) \<and>
   lowest_after (SaveModelCheckpointHook_init id ''m.ckpt'') empty_world (take 1 example_calls) = Finite (1/2)"
proof -
  let ?h0 = "SaveModelCheckpointHook_init id ''m.ckpt''"
  have r: "fst (hook_run ?h0 empty_world example_calls) = Inr ()"
    by (simp add: example_defs call_Trainer SaveModelCheckpointHook_init_def)
  then obtain h' w' where run: "hook_run ?h0 empty_world example_calls = (Inr (), h', w')"
    by (cases "hook_run ?h0 empty_world example_calls") auto
  have len: "(1::nat) \<le> 3" "3 \<le> length example_calls" by (simp_all add: example_calls_def)
  note main = hook_lowest_is_running_min[OF run len]
  have v3: "lowest_after ?h0 empty_world (take 3 example_calls) = Finite (1/5)"
    by (simp add: lowest_after_def example_defs call_Trainer SaveModelCheckpointHook_init_def)
  have v1: "lowest_after ?h0 empty_world (take 1 example_calls) = Finite (1/2)"
    by (simp add: lowest_after_def example_defs call_Trainer SaveModelCheckpointHook_init_def)
  from r len main v3 v1 show ?thesis by simp
qed






text \<open>
  Claim C10. An invocation whose caller is not a trainer raises \<^verbatim>\<open>AssertionError\<close> and
  leaves the hook and the world as they were, whatever the meter's value; and only such
  an invocation raises it.
\<close>

theorem call_not_trainer_raises:
  "SaveModelCheckpointHook_call h NotTrainer v w = (Inl AssertionError, h, w) \<and>
   (fst (SaveModelCheckpointHook_call h c v w) = Inl AssertionError) = (c = NotTrainer)"
  by (cases c) (simp_all add: call_Trainer, simp_all add: SaveModelCheckpointHook_call_def)

section \<open>Properties of the script's steps\<close>

lemmas step_defs =
  final_save_def torch_save_def torch_load_def load_checkpoint_step_def load_state_dict_def
  logger_info_def checkpoint_record_def checkpoint_hook_def SaveModelCheckpointHook_init_def
  SaveModelCheckpointHook_save_def Let_def

lemmas args_defs =
  example_args_def no_checkpoint_args_def missing_dir_args_def bare_args_def
  empty_record_args_def model_only_args_def

lemmas object_defs =
  example_model_def example_optimizer_def fresh_model_def fresh_optimizer_def parameterless_def
  empty_world_def missing_dir_world_def bare_world_def partial_record_world_def
  readonly_world_def

text \<open>
  The claim C6 as it is written fails: with an empty \<^verbatim>\<open>--save_checkpoint\<close> the script ends
  without writing anything, after a run in which no hook was registered.
\<close>

theorem final_save_unconditional_counterexample:
  "final_save no_checkpoint_args example_model example_optimizer
     (world_after example_hook empty_world example_calls) =
   Inr (world_after example_hook empty_world example_calls) \<and>
   checkpoint_hook id no_checkpoint_args = None \<and>
   final_save no_checkpoint_args example_model example_optimizer empty_world = Inr empty_world \<and>
   files empty_world = Map.empty \<and> trace empty_world = []"
  by (simp add: final_save_def no_checkpoint_args_def checkpoint_hook_def empty_world_def)

text \<open>
  Claim C6, amended. After the training run, when \<^verbatim>\<open>--save_checkpoint\<close> is a non-empty
  string, the script saves the record of the model state and the optimizer state under
  that path as it was given, whatever the metric did during the run: when the path can
  be written the file then holds that record, the write comes after those of the run
  and every other file is as before; when it cannot, the save raises. The hook was
  registered on the normalised path with the suffix \<^verbatim>\<open>-valid-lowest-cer\<close>. When the
  argument is empty nothing is written and no hook was registered.
\<close>

theorem final_save_when_named:
  "(save_checkpoint a \<noteq> [] \<and> writable w (save_checkpoint a) \<longrightarrow>
      final_save a mdl optim w =
        Inr (w\<lparr>files := (files w)(save_checkpoint a \<mapsto>
                  [''model'' \<mapsto> state_dict mdl, ''optimizer'' \<mapsto> state_dict optim]),
               trace := trace w @
                 [Saved (save_checkpoint a)
                    [''model'' \<mapsto> state_dict mdl, ''optimizer'' \<mapsto> state_dict optim]]\<rparr>)) \<and>
   (save_checkpoint a \<noteq> [] \<and> \<not> writable w (save_checkpoint a) \<longrightarrow>
      final_save a mdl optim w = Inl IOError) \<and>
   (save_checkpoint a \<noteq> [] \<longrightarrow>
      checkpoint_hook normpath a =
        Some \<lparr>lowest = PosInf, filename = normpath (save_checkpoint a @ ''-valid-lowest-cer'')\<rparr>) \<and>
   (save_checkpoint a = [] \<longrightarrow>
      final_save a mdl optim w = Inr w \<and> checkpoint_hook normpath a = None) \<and>
   (\<forall>w' p. final_save a mdl optim w = Inr w' \<and> p \<noteq> save_checkpoint a \<longrightarrow>
      files w' p = files w p)"
  by (auto simp add: step_defs split: if_splits)

theorem final_save_when_named_witness:
  "save_checkpoint example_args \<noteq> [] \<and>
   writable (world_after example_hook empty_world example_calls) (save_checkpoint example_args) \<and>
   (case final_save example_args example_model example_optimizer
           (world_after example_hook empty_world example_calls) of
      Inl e \<Rightarrow> False
    | Inr w' \<Rightarrow>
        files w' ''model.ckpt'' =
          Some [''model'' \<mapsto> Dict [''w'' \<mapsto> Tensor 1], ''optimizer'' \<mapsto> Dict [''lr'' \<mapsto> Tensor 2]] \<and>
        files w' ''m.ckpt'' = files (world_after example_hook empty_world example_calls) ''m.ckpt'') \<and>
   save_checkpoint missing_dir_args \<noteq> [] \<and>
   \<not> writable missing_dir_world (save_checkpoint missing_dir_args) \<and>
   final_save missing_dir_args example_model example_optimizer missing_dir_world = Inl IOError \<and>
   checkpoint_hook id missing_dir_args =
     Some \<lparr>lowest = PosInf, filename = ''a/../b/model.ckpt-valid-lowest-cer''\<rparr> \<and>
   save_checkpoint no_checkpoint_args = [] \<and>
   final_save no_checkpoint_args example_model example_optimizer empty_world = Inr empty_world \<and>
   checkpoint_hook id no_checkpoint_args = None"
proof -
  let ?w = "world_after example_hook empty_world example_calls"
  have n: "save_checkpoint example_args \<noteq> []" "save_checkpoint example_args = ''model.ckpt''"
    by (simp_all add: example_args_def)
  have wr: "writable ?w (save_checkpoint example_args)"
    by (simp add: world_after_def example_defs call_Trainer SaveModelCheckpointHook_init_def)
  have st: "state_dict example_model = Dict [''w'' \<mapsto> Tensor 1]"
    "state_dict example_optimizer = Dict [''lr'' \<mapsto> Tensor 2]"
    by (simp_all add: object_defs)
  note t1 = final_save_when_named[of example_args ?w example_model example_optimizer id]
  note t2 = final_save_when_named[of missing_dir_args missing_dir_world example_model example_optimizer id]
  note t3 = final_save_when_named[of no_checkpoint_args empty_world example_model example_optimizer id]
  from t1 n wr st have 1:
    "(case final_save example_args example_model example_optimizer ?w of
        Inl e \<Rightarrow> False
      | Inr w' \<Rightarrow>
          files w' ''model.ckpt'' =
            Some [''model'' \<mapsto> Dict [''w'' \<mapsto> Tensor 1], ''optimizer'' \<mapsto> Dict [''lr'' \<mapsto> Tensor 2]] \<and>
          files w' ''m.ckpt'' = files ?w ''m.ckpt'')"
    by simp
  have m: "save_checkpoint missing_dir_args \<noteq> []"
    "\<not> writable missing_dir_world (save_checkpoint missing_dir_args)"
    "save_checkpoint missing_dir_args = ''a/../b/model.ckpt''"
    by (simp_all add: args_defs object_defs)
  from t2 m have 2:
    "final_save missing_dir_args example_model example_optimizer missing_dir_world = Inl IOError"
    "checkpoint_hook id missing_dir_args =
       Some \<lparr>lowest = PosInf, filename = ''a/../b/model.ckpt-valid-lowest-cer''\<rparr>"
    by simp_all
  have e: "save_checkpoint no_checkpoint_args = []" by (simp add: args_defs)
  from t3 e have 3:
    "final_save no_checkpoint_args example_model example_optimizer empty_world = Inr empty_world"
    "checkpoint_hook id no_checkpoint_args = None"
    by simp_all
  from n(1) wr 1 m(1,2) 2 e 3 show ?thesis by simp
qed

text \<open>
  The claim C7 as it is written fails: the final save writes the record of a model and
  an optimizer without parameters, and loading that record into a model with the
  parameter \<open>w\<close> raises, since \<^verbatim>\<open>load_state_dict\<close> is strict.
\<close>

theorem checkpoint_round_trip_counterexample:
  "(case final_save example_args parameterless parameterless empty_world of
      Inl e \<Rightarrow> False
    | Inr w1 \<Rightarrow>
        files w1 ''model.ckpt'' =
          Some [''model'' \<mapsto> Dict Map.empty, ''optimizer'' \<mapsto> Dict Map.empty] \<and>
        fst (load_checkpoint_step example_args fresh_model fresh_optimizer w1) =
          Inl LoadStateDictError)"
  by (simp add: step_defs args_defs object_defs)

text \<open>
  Claim C7, amended. Let the final save or the hook's save have written the record of
  a model state and an optimizer state under a path, and let the file be unchanged
  since. Loading from that path then leaves exactly the saved model state in the model
  and the saved optimizer state in the optimizer built at startup, whatever their
  states were, when both accept the saved states; when one of them does not, the load
  raises. The only other effect is the log line.
\<close>

theorem checkpoint_round_trip:
  assumes saved:
      "final_save a mdl optim w0 = Inr w1 \<and> save_checkpoint a \<noteq> [] \<and> path = save_checkpoint a \<or>
       SaveModelCheckpointHook_save h (state_dict mdl) (state_dict optim) w0 = Inr w1 \<and>
         filename h \<noteq> [] \<and> path = filename h"
    and same: "files w path = files w1 path"
    and load: "load_checkpoint a' = Some path"
  shows "load_checkpoint_step a' mdl0 optim0 w =
     (if accepts mdl0 (state_dict mdl) \<and> accepts optim0 (state_dict optim)
      then Inr (mdl0\<lparr>state_dict := state_dict mdl\<rparr>, optim0\<lparr>state_dict := state_dict optim\<rparr>)
      else Inl LoadStateDictError,
      logger_info (LoadingFrom path) w)"
proof -
  from saved have f: "files w1 path =
      Some [''model'' \<mapsto> state_dict mdl, ''optimizer'' \<mapsto> state_dict optim]" and p: "path \<noteq> []"
    by (auto simp add: final_save_def SaveModelCheckpointHook_save_def torch_save_def
        checkpoint_record_def split: if_splits)
  from f same p load show ?thesis
    by (simp add: load_checkpoint_step_def torch_load_def load_state_dict_def logger_info_def Let_def)
qed

theorem checkpoint_round_trip_witness:
  "final_save example_args example_model example_optimizer empty_world =
     Inr (empty_world\<lparr>files := [''model.ckpt'' \<mapsto>
              [''model'' \<mapsto> Dict [''w'' \<mapsto> Tensor 1], ''optimizer'' \<mapsto> Dict [''lr'' \<mapsto> Tensor 2]]],
            trace := [Saved ''model.ckpt''
              [''model'' \<mapsto> Dict [''w'' \<mapsto> Tensor 1], ''optimizer'' \<mapsto> Dict [''lr'' \<mapsto> Tensor 2]]]\<rparr>) \<and>
   save_checkpoint example_args \<noteq> [] \<and> ''model.ckpt'' = save_checkpoint example_args \<and>
   load_checkpoint example_args = Some ''model.ckpt'' \<and>
   accepts fresh_model (state_dict example_model) \<and>
   accepts fresh_optimizer (state_dict example_optimizer) \<and>
   state_dict fresh_model \<noteq> state_dict example_model \<and>
   fst (load_checkpoint_step example_args fresh_model fresh_optimizer
     (empty_world\<lparr>files := [''model.ckpt'' \<mapsto>
              [''model'' \<mapsto> Dict [''w'' \<mapsto> Tensor 1], ''optimizer'' \<mapsto> Dict [''lr'' \<mapsto> Tensor 2]]],
            trace := [Saved ''model.ckpt''
              [''model'' \<mapsto> Dict [''w'' \<mapsto> Tensor 1], ''optimizer'' \<mapsto> Dict [''lr'' \<mapsto> Tensor 2]]]\<rparr>)) =
     Inr (fresh_model\<lparr>state_dict := Dict [''w'' \<mapsto> Tensor 1]\<rparr>,
          fresh_optimizer\<lparr>state_dict := Dict [''lr'' \<mapsto> Tensor 2]\<rparr>)"
proof -
  let ?w1 = "empty_world\<lparr>files := [''model.ckpt'' \<mapsto>
              [''model'' \<mapsto> Dict [''w'' \<mapsto> Tensor 1], ''optimizer'' \<mapsto> Dict [''lr'' \<mapsto> Tensor (2::nat)]]],
            trace := [Saved ''model.ckpt''
              [''model'' \<mapsto> Dict [''w'' \<mapsto> Tensor 1], ''optimizer'' \<mapsto> Dict [''lr'' \<mapsto> Tensor 2]]]\<rparr>"
  have s: "final_save example_args example_model example_optimizer empty_world = Inr ?w1"
    by (simp add: step_defs args_defs object_defs)
  have n: "save_checkpoint example_args \<noteq> []" "''model.ckpt'' = save_checkpoint example_args"
    "load_checkpoint example_args = Some ''model.ckpt''"
    by (simp_all add: args_defs)
  have acc: "accepts fresh_model (state_dict example_model)"
    "accepts fresh_optimizer (state_dict example_optimizer)"
    by (simp_all add: object_defs)
  have ne: "state_dict fresh_model \<noteq> state_dict example_model"
  proof
    assume "state_dict fresh_model = state_dict example_model"
    then have "[''w'' \<mapsto> Tensor (0::nat)] ''w'' = [''w'' \<mapsto> Tensor 1] ''w''"
      by (simp add: object_defs)
    then show False by simp
  qed
  have st: "state_dict example_model = Dict [''w'' \<mapsto> Tensor 1]"
    "state_dict example_optimizer = Dict [''lr'' \<mapsto> Tensor 2]"
    by (simp_all add: object_defs)
  have "final_save example_args example_model example_optimizer empty_world = Inr ?w1 \<and>
        save_checkpoint example_args \<noteq> [] \<and> ''model.ckpt'' = save_checkpoint example_args \<or>
        SaveModelCheckpointHook_save example_hook (state_dict example_model)
          (state_dict example_optimizer) empty_world = Inr ?w1 \<and>
        filename example_hook \<noteq> [] \<and> ''model.ckpt'' = filename example_hook"
    using s n by blast
  from checkpoint_round_trip[OF this refl n(3), of fresh_model fresh_optimizer] acc st
  have "fst (load_checkpoint_step example_args fresh_model fresh_optimizer ?w1) =
     Inr (fresh_model\<lparr>state_dict := Dict [''w'' \<mapsto> Tensor 1]\<rparr>,
          fresh_optimizer\<lparr>state_dict := Dict [''lr'' \<mapsto> Tensor 2]\<rparr>)"
    by simp
  with s n acc ne show ?thesis by simp
qed

text \<open>
  The claim C9 as it is written fails: a file holding the empty dictionary, or a
  dictionary with the key \<^verbatim>\<open>model\<close> only, lacks a key, and the model with the parameter
  \<open>w\<close> does not take it as its state: the load raises.
\<close>

theorem load_without_both_keys_counterexample:
  "load_checkpoint empty_record_args = Some ''empty.ckpt'' \<and>
   files partial_record_world ''empty.ckpt'' = Some Map.empty \<and>
   fst (load_checkpoint_step empty_record_args fresh_model fresh_optimizer partial_record_world) =
     Inl LoadStateDictError \<and>
   load_checkpoint model_only_args = Some ''model_only.ckpt'' \<and>
   files partial_record_world ''model_only.ckpt'' = Some [''model'' \<mapsto> Dict [''w'' \<mapsto> Tensor 1]] \<and>
   fst (load_checkpoint_step model_only_args fresh_model fresh_optimizer partial_record_world) =
     Inl LoadStateDictError"
  by (simp add: step_defs args_defs object_defs)

text \<open>
  Claim C9, amended. When the dictionary in the file named by a non-empty
  \<^verbatim>\<open>--load_checkpoint\<close> lacks the key \<^verbatim>\<open>model\<close> or the key \<^verbatim>\<open>optimizer\<close>, the whole
  dictionary is given to the model's strict \<^verbatim>\<open>load_state_dict\<close> and the optimizer is not
  touched: when the model accepts the dictionary it becomes the model state and the
  optimizer is as it was, and otherwise the load raises. When the dictionary has both
  keys, the two entries are given to the model and to the optimizer.
\<close>

theorem load_without_both_keys:
  assumes "load_checkpoint a = Some path" and "path \<noteq> []" and "files w path = Some d"
  shows "(d ''model'' = None \<or> d ''optimizer'' = None \<longrightarrow>
            load_checkpoint_step a mdl optim w =
              (if accepts mdl (Dict d) then Inr (mdl\<lparr>state_dict := Dict d\<rparr>, optim)
               else Inl LoadStateDictError,
               logger_info (LoadingFrom path) w)) \<and>
         (\<forall>m opt. d ''model'' = Some m \<and> d ''optimizer'' = Some opt \<longrightarrow>
            load_checkpoint_step a mdl optim w =
              (if accepts mdl m \<and> accepts optim opt
               then Inr (mdl\<lparr>state_dict := m\<rparr>, optim\<lparr>state_dict := opt\<rparr>)
               else Inl LoadStateDictError,
               logger_info (LoadingFrom path) w))"
  using assms
  by (auto simp add: load_checkpoint_step_def torch_load_def load_state_dict_def logger_info_def
      Let_def split: option.splits)

theorem load_without_both_keys_witness:
  "load_checkpoint bare_args = Some ''bare.ckpt'' \<and> ''bare.ckpt'' \<noteq> [] \<and>
   files bare_world ''bare.ckpt'' = Some [''w'' \<mapsto> Tensor 1] \<and>
   [''w'' \<mapsto> Tensor (1::nat)] ''optimizer'' = None \<and>
   accepts fresh_model (Dict [''w'' \<mapsto> Tensor 1]) \<and>
   fst (load_checkpoint_step bare_args fresh_model fresh_optimizer bare_world) =
     Inr (fresh_model\<lparr>state_dict := Dict [''w'' \<mapsto> Tensor 1]\<rparr>, fresh_optimizer) \<and>
   load_checkpoint empty_record_args = Some ''empty.ckpt'' \<and> ''empty.ckpt'' \<noteq> [] \<and>
   files partial_record_world ''empty.ckpt'' = Some Map.empty \<and>
   \<not> accepts fresh_model (Dict Map.empty) \<and>
   fst (load_checkpoint_step empty_record_args fresh_model fresh_optimizer partial_record_world) =
     Inl LoadStateDictError"
proof -
  have l: "load_checkpoint bare_args = Some ''bare.ckpt''" by (simp add: args_defs)
  have p: "''bare.ckpt'' \<noteq> []" by simp
  have f: "files bare_world ''bare.ckpt'' = Some [''w'' \<mapsto> Tensor 1]"
    by (simp add: object_defs)
  have k: "[''w'' \<mapsto> Tensor (1::nat)] ''optimizer'' = None" by simp
  have acc: "accepts fresh_model (Dict [''w'' \<mapsto> Tensor 1])" by (simp add: object_defs)
  from load_without_both_keys[OF l p f, of fresh_model fresh_optimizer] k acc
  have 1: "fst (load_checkpoint_step bare_args fresh_model fresh_optimizer bare_world) =
     Inr (fresh_model\<lparr>state_dict := Dict [''w'' \<mapsto> Tensor 1]\<rparr>, fresh_optimizer)"
    by simp
  have l2: "load_checkpoint empty_record_args = Some ''empty.ckpt''" by (simp add: args_defs)
  have p2: "''empty.ckpt'' \<noteq> []" by simp
  have f2: "files partial_record_world ''empty.ckpt'' = Some Map.empty" by (simp add: object_defs)
  have nacc: "\<not> accepts fresh_model (Dict Map.empty)" by (simp add: object_defs)
  from load_without_both_keys[OF l2 p2 f2, of fresh_model fresh_optimizer] nacc
  have 2: "fst (load_checkpoint_step empty_record_args fresh_model fresh_optimizer partial_record_world) =
     Inl LoadStateDictError"
    by simp
  from l p f k acc 1 l2 p2 f2 nacc 2 show ?thesis by simp
qed

text \<open>
  Claim C8. The list of early-stop triggers holds the epoch-count trigger for \<open>n\<close>
  exactly when \<^verbatim>\<open>max_epochs\<close> is set to \<open>n\<close> and \<open>n\<close> is greater than zero; it holds a
  metric-stability trigger exactly when the window size and the threshold are both set
  and both different from zero, and then the one with these two values and an empty
  window; it holds nothing else, and the early-stop trigger of the trainer is the
  composite of this list.
\<close>

theorem early_stop_triggers_registered:
  "(NumEpochs n \<in> set (early_stop_triggers a)) = (max_epochs a = Some n \<and> 0 < n) \<and>
   (MeterStandardDeviation T W window \<in> set (early_stop_triggers a)) =
     (valid_cer_std_window_size a = Some W \<and> W \<noteq> 0 \<and>
      valid_cer_std_threshold a = Some T \<and> T \<noteq> 0 \<and> window = []) \<and>
   Any ts \<notin> set (early_stop_triggers a) \<and>
   early_stop_trigger a = Any (early_stop_triggers a)"
  by (auto simp add: early_stop_triggers_def early_stop_trigger_def truthy_int_def truthy_float_def
      split: option.splits)

section \<open>Properties of the triggers\<close>

lemma most_recent_append:
  "most_recent n (most_recent n xs @ ys) = most_recent n (xs @ ys)"
proof (cases "length xs \<le> n")
  case True
  then show ?thesis by (simp add: most_recent_def)
next
  case False
  then have "length xs + length ys - (length xs - n + n) + (length xs - n) = length xs + length ys - n"
    by simp
  with False show ?thesis by (simp add: most_recent_def)
qed

lemma length_most_recent: "length (most_recent n xs) = min n (length xs)"
  by (simp add: most_recent_def)

text \<open>The window of the trigger holds the most recent values it was evaluated on.\<close>

lemma feed_window:
  "length window \<le> nat W \<Longrightarrow>
   feed e (MeterStandardDeviation T W window) vs =
     MeterStandardDeviation T W (most_recent (nat W) (window @ vs))"
proof (induction vs arbitrary: e window)
  case Nil
  then show ?case by (simp add: most_recent_def)
next
  case (Cons v vs)
  have "length (most_recent (nat W) (window @ [v])) \<le> nat W"
    by (simp add: most_recent_def)
  from Cons.IH[OF this] show ?case
    by (simp add: Let_def most_recent_append)
qed

lemma sqrt_le_iff_square: "0 \<le> t \<Longrightarrow> (sqrt x \<le> t) = (x \<le> t\<^sup>2)"
  by (metis abs_of_nonneg real_sqrt_abs real_sqrt_le_iff)

lemma std_at_most_iff:
  "0 \<le> T \<Longrightarrow>
   std_at_most xs T =
     (2 \<le> length xs \<and> sum_list (map (\<lambda>x. (x - mean xs)\<^sup>2) xs) / real (length xs - 1) \<le> T\<^sup>2)"
  by (simp add: std_at_most_def sample_std_def sqrt_le_iff_square)

lemmas trigger_eval =
  fires_def plateau_trigger_def Let_def most_recent_def std_at_most_iff mean_def power2_eq_square

text \<open>
  Claim C3. A metric-stability trigger with threshold \<open>T\<close> and window size \<open>W\<close>, evaluated
  once after each value of \<open>vs\<close> and now on \<open>v\<close>, fires if and only if at least \<open>W\<close>
  values have been observed and the sample standard deviation of the \<open>W\<close> most recent
  ones is defined and at most \<open>T\<close>; it does not fire while fewer than \<open>W\<close> values have
  been observed.
\<close>

theorem meter_std_fires_iff:
  "fires e v (feed e0 (MeterStandardDeviation T W []) vs) =
     (W \<le> int (length (vs @ [v])) \<and> std_at_most (most_recent (nat W) (vs @ [v])) T) \<and>
   (int (length (vs @ [v])) < W \<longrightarrow> \<not> fires e v (feed e0 (MeterStandardDeviation T W []) vs))"
proof -
  have w: "feed e0 (MeterStandardDeviation T W []) vs =
      MeterStandardDeviation T W (most_recent (nat W) vs)"
    using feed_window[of "[]" W e0 T vs] by simp
  have f: "fires e v (feed e0 (MeterStandardDeviation T W []) vs) =
      (int (min (nat W) (length vs + 1)) = W \<and> std_at_most (most_recent (nat W) (vs @ [v])) T)"
    by (simp add: w fires_def Let_def most_recent_append length_most_recent)
  have e: "std_at_most (most_recent (nat W) (vs @ [v])) T \<Longrightarrow> 0 < W"
  proof (rule ccontr)
    assume s: "std_at_most (most_recent (nat W) (vs @ [v])) T" and "\<not> 0 < W"
    then have "most_recent (nat W) (vs @ [v]) = []" by (simp add: most_recent_def)
    with s show False by (simp add: std_at_most_def sample_std_def)
  qed
  show ?thesis unfolding f using e by auto
qed

theorem meter_std_fires_iff_witness:
  "int (length ([1/2] @ [1/5 :: real])) < 3 \<and>
   \<not> fires 1 (1/5) (feed 0 plateau_trigger [1/2]) \<and>
   3 \<le> int (length ([1/20, 1/25] @ [9/200 :: real])) \<and>
   most_recent (nat 3) ([1/20, 1/25] @ [9/200 :: real]) = [1/20, 1/25, 9/200] \<and>
   std_at_most [1/20, 1/25, 9/200] (1/100) \<and>
   fires 2 (9/200) (feed 0 plateau_trigger [1/20, 1/25])"
proof -
  note a = meter_std_fires_iff[of 1 "1/5" 0 "1/100" 3 "[1/2]", folded plateau_trigger_def]
  note b = meter_std_fires_iff[of 2 "9/200" 0 "1/100" 3 "[1/20, 1/25]", folded plateau_trigger_def]
  have l: "int (length ([1/2] @ [1/5 :: real])) < 3" by simp
  have m: "most_recent (nat 3) ([1/20, 1/25] @ [9/200 :: real]) = [1/20, 1/25, 9/200]"
    by (simp add: most_recent_def)
  have s: "std_at_most [1/20, 1/25, 9/200] (1/100)"
    by (simp add: std_at_most_iff mean_def power2_eq_square)
  from a l have 1: "\<not> fires 1 (1/5) (feed 0 plateau_trigger [1/2])" by blast
  from b m s have 2: "fires 2 (9/200) (feed 0 plateau_trigger [1/20, 1/25])" by simp
  from l m s 1 2 show ?thesis by simp
qed

text \<open>
  Claim C4. The trigger with window size 3 and threshold 0.01, evaluated after each of
  the values 0.50, 0.20, 0.05, 0.04, 0.045, does not fire at the first four and fires
  at the fifth, where the window 0.05, 0.04, 0.045 has the sample standard deviation
  0.005.
\<close>

theorem plateau_scenario:
  "\<not> fires 0 (1/2) plateau_trigger \<and>
   \<not> fires 1 (1/5) (feed 0 plateau_trigger [1/2]) \<and>
   \<not> fires 2 (1/20) (feed 0 plateau_trigger [1/2, 1/5]) \<and>
   \<not> fires 3 (1/25) (feed 0 plateau_trigger [1/2, 1/5, 1/20]) \<and>
   fires 4 (9/200) (feed 0 plateau_trigger [1/2, 1/5, 1/20, 1/25]) \<and>
   snd (evaluate 4 (9/200) (feed 0 plateau_trigger [1/2, 1/5, 1/20, 1/25])) =
     MeterStandardDeviation (1/100) 3 [1/20, 1/25, 9/200] \<and>
   sample_std [1/20, 1/25, 9/200] = Some (1/200)"
proof -
  have 1: "\<not> fires 0 (1/2) plateau_trigger"
    by (simp add: trigger_eval)
  have 2: "\<not> fires 1 (1/5) (feed 0 plateau_trigger [1/2])"
    by (simp add: trigger_eval)
  have 3: "\<not> fires 2 (1/20) (feed 0 plateau_trigger [1/2, 1/5])"
    by (simp add: trigger_eval)
  have 4: "\<not> fires 3 (1/25) (feed 0 plateau_trigger [1/2, 1/5, 1/20])"
    by (simp add: trigger_eval)
  have 5: "fires 4 (9/200) (feed 0 plateau_trigger [1/2, 1/5, 1/20, 1/25])"
    by (simp add: trigger_eval)
  have 6: "snd (evaluate 4 (9/200) (feed 0 plateau_trigger [1/2, 1/5, 1/20, 1/25])) =
     MeterStandardDeviation (1/100) 3 [1/20, 1/25, 9/200]"
    by (simp add: plateau_trigger_def Let_def most_recent_def)
  have "sqrt (1 / 40000) = 1 / 200"
    by (rule real_sqrt_unique) (simp_all add: power2_eq_square)
  then have 7: "sample_std [1/20, 1/25, 9/200] = Some (1/200)"
    by (simp add: sample_std_def mean_def power2_eq_square)
  from 1 2 3 4 5 6 7 show ?thesis by blast
qed

text \<open>
  Claim C5. At every evaluation the composite trigger fires if and only if at least
  one of its members fires. The epoch-count trigger for \<open>n\<close> does not fire while the
  completed-epoch counter is below \<open>n\<close>, and a composite that has it among its members
  fires at the evaluation where the counter is \<open>n\<close>.
\<close>

theorem any_fires_iff:
  "fires e v (Any ts) = (\<exists>t \<in> set ts. fires e v t) \<and>
   (NumEpochs n \<in> set ts \<longrightarrow> fires n v (Any ts)) \<and>
   (\<forall>e'. e' < n \<longrightarrow> \<not> fires e' v (NumEpochs n))"
  by (auto simp add: fires_def Let_def list_ex_iff intro: bexI[where x = "NumEpochs n"])

theorem any_fires_iff_witness:
  "NumEpochs 20 \<in> set (early_stop_triggers example_args) \<and>
   fires 20 (1/2) (Any (early_stop_triggers example_args)) \<and>
   (19::int) < 20 \<and> \<not> fires 19 (1/2) (NumEpochs 20) \<and>
   \<not> fires 19 (1/2) (Any (early_stop_triggers example_args))"
proof -
  have ts: "early_stop_triggers example_args = [NumEpochs 20, plateau_trigger]"
    by (simp add: early_stop_triggers_def example_args_def truthy_int_def truthy_float_def
        plateau_trigger_def)
  have m: "NumEpochs 20 \<in> set (early_stop_triggers example_args)" by (simp add: ts)
  note a = any_fires_iff[of 20 "1/2" "early_stop_triggers example_args" 20]
  note b = any_fires_iff[of 19 "1/2" "early_stop_triggers example_args" 20]
  have p: "\<not> fires 19 (1/2) plateau_trigger" by (simp add: trigger_eval)
  from a m have 1: "fires 20 (1/2) (Any (early_stop_triggers example_args))" by blast
  from b have 2: "\<not> fires 19 (1/2) (NumEpochs 20)" by simp
  from b 2 p have 3: "\<not> fires 19 (1/2) (Any (early_stop_triggers example_args))"
    by (simp add: ts)
  from m 1 2 3 show ?thesis by simp
qed

end
